theory Spec2Isabelle
  imports Main "HOL-Library.Sublist"
begin

section \<open>Python values and strings\<close>

text \<open>
  A Python \<open>str\<close> is modelled as a \<open>string\<close>: one \<open>char\<close> per code point, for the code
  points below 256. The values \<open>json.loads\<close> can return are \<open>None\<close>, booleans, integers,
  floats, strings, lists and dictionaries; a dictionary is an association list read with
  \<open>map_of\<close>. A float is kept as mantissa and binary exponent, or as one of the three special
  values the decoder accepts.
\<close>

datatype pyfloat = Finite int int | Infinity bool | NaN

datatype pyval =
    PNone
  | PBool bool
  | PInt int
  | PFloat pyfloat
  | PStr string
  | PList "pyval list"
  | PDict "(string \<times> pyval) list"

datatype exn =
    KeyError string | TypeError | ValueError | AttributeError
  | UnicodeDecodeError | OSError | EOFError

text \<open>Truthiness, as \<open>if x:\<close> and \<open>x or y\<close> test it.\<close>

fun truthy :: "pyval \<Rightarrow> bool" where
  "truthy PNone = False"
| "truthy (PBool b) = b"
| "truthy (PInt i) = (i \<noteq> 0)"
| "truthy (PFloat (Finite m e)) = (m \<noteq> 0)"
| "truthy (PFloat (Infinity s)) = True"
| "truthy (PFloat NaN) = True"
| "truthy (PStr s) = (s \<noteq> [])"
| "truthy (PList xs) = (xs \<noteq> [])"
| "truthy (PDict kvs) = (kvs \<noteq> [])"

fun is_str :: "pyval \<Rightarrow> bool" where
  "is_str (PStr s) = True"
| "is_str v = False"

fun the_str :: "pyval \<Rightarrow> string" where
  "the_str (PStr s) = s"
| "the_str v = []"

text \<open>
  \<open>str.isspace\<close> on the code points below 256: tab, line feed, vertical tab, form feed,
  carriage return, the four separators 0x1C to 0x1F, space, next line (0x85) and the
  no-break space (0xA0).
\<close>

definition py_isspace :: "char \<Rightarrow> bool" where
  "py_isspace c =
     (of_char c \<in> set [9, 10, 11, 12, 13, 28, 29, 30, 31, 32, 133, 160 :: nat])"

definition py_lstrip :: "string \<Rightarrow> string" where
  "py_lstrip s = dropWhile py_isspace s"

definition py_rstrip :: "string \<Rightarrow> string" where
  "py_rstrip s = rev (dropWhile py_isspace (rev s))"

definition py_strip :: "string \<Rightarrow> string" where
  "py_strip s = py_rstrip (py_lstrip s)"

text \<open>\<open>str.lower\<close> on the code points below 256.\<close>

definition py_lower_char :: "char \<Rightarrow> char" where
  "py_lower_char c =
     (let n = of_char c :: nat
      in if (65 \<le> n \<and> n \<le> 90) \<or> (192 \<le> n \<and> n \<le> 222 \<and> n \<noteq> 215)
         then char_of (n + 32) else c)"

definition py_lower :: "string \<Rightarrow> string" where
  "py_lower s = map py_lower_char s"

text \<open>\<open>str(n)\<close> for a natural number: its decimal digits.\<close>

fun str_nat :: "nat \<Rightarrow> string" where
  "str_nat n =
     (if n < 10 then [char_of (48 + n)]
      else str_nat (n div 10) @ [char_of (48 + n mod 10)])"

declare str_nat.simps [simp del]

section \<open>Events\<close>

text \<open>
  Every function of the program returns the list of the effects it performed, in order,
  beside its value: the processes it spawned, the lines it printed, the questions it asked
  on standard input, the requests it sent to the generation backend, the files it wrote.
  An uncaught exception is the \<open>Inl\<close> of the value.
\<close>

text \<open>
  What a git command line answers: it ends with status 0 and this output, it ends with
  another status (\<open>CalledProcessError\<close> under \<open>check=True\<close>), or its output is not text in
  the locale's encoding. The third answer concerns a run with \<open>capture_output=True,
  text=True\<close> only: there \<open>subprocess.run\<close> decodes the output before it looks at the
  status, and raises \<open>UnicodeDecodeError\<close>. A run that does not capture the output decodes
  nothing, and every answer other than \<open>CalledProcessError\<close> is a normal end.
\<close>

datatype proc_result = Completed string | CalledProcessError string | Undecodable

fun failed :: "proc_result \<Rightarrow> bool" where
  "failed (Completed out) = False"
| "failed (CalledProcessError msg) = True"
| "failed Undecodable = False"

text \<open>
  What \<open>tiktoken.encoding_for_model\<close> gives: \<open>KeyError\<close> for a model it does not know, an
  encoder, or a failure to load the encoding (it is fetched on first use; the error is an
  \<open>OSError\<close>). The encoder's \<open>encode\<close> raises \<open>ValueError\<close> on a text that holds a
  special token: it is \<open>None\<close> there.
\<close>

datatype estimator = UnknownModel | Encoder "string \<Rightarrow> nat option" | Unavailable

record usage =
  total_tokens :: nat
  prompt_tokens :: nat
  completion_tokens :: nat

datatype api_result =
    ApiError string
  | ApiResponse "string option" "usage option"

text \<open>
  The settings are the dictionary \<open>load_config\<close> returns, with the six keys that
  \<open>--init\<close> writes and the types of the specification's data model; a key that is absent
  is \<open>None\<close>. The command-line options are the namespace \<open>argparse\<close> returns.
\<close>

record config =
  openai_api_key :: "string option"
  model :: "string option"
  base_url :: "string option"
  max_tokens :: "int option"
  ignore_files :: "string list option"
  cfg_extra_info :: "string option"

record args =
  init :: bool
  push :: bool
  yes :: bool
  branch :: bool
  extra_info :: "string option"
  output_path :: "string option"

datatype event =
    Subprocess "string list"
  | Print string
  | Input string
  | LoadConfig
  | SaveConfig config
  | WriteFile string string
  | ChatCompletion string string "int option"

text \<open>
  The world the program runs in: the settings file, what each git command line answers,
  what the user types at each question (\<open>None\<close> when standard input is at its end:
  \<open>EOFError\<close>), which paths can be opened for writing, what the backend answers to a
  request, what the token estimator knows, and the Python built-ins \<open>json.loads\<close> (\<open>None\<close> is
  \<open>JSONDecodeError\<close>), \<open>str\<close> on a value that is not a string, and \<open>int\<close> on a string
  (\<open>None\<close> is \<open>ValueError\<close>). No command line is run twice in one run, and no question is
  asked twice, so a function of the command line, or of the question, loses nothing.
\<close>

record env =
  settings :: config
  git :: "string list \<Rightarrow> proc_result"
  stdin :: "string \<Rightarrow> string option"
  writable :: "string \<Rightarrow> bool"
  create :: "string \<Rightarrow> string \<Rightarrow> int option \<Rightarrow> api_result"
  encoding_for_model :: "string \<Rightarrow> estimator"
  loads :: "string \<Rightarrow> pyval option"
  py_repr :: "pyval \<Rightarrow> string"
  py_int :: "string \<Rightarrow> int option"

definition commands :: "event list \<Rightarrow> string list list" where
  "commands evs = concat (map (\<lambda>e. case e of Subprocess argv \<Rightarrow> [argv] | _ \<Rightarrow> []) evs)"

definition requests :: "event list \<Rightarrow> string list" where
  "requests evs =
     concat (map (\<lambda>e. case e of ChatCompletion m p t \<Rightarrow> [p] | _ \<Rightarrow> []) evs)"

text \<open>An f-string field: a string is inserted as it is, any other value through \<open>str\<close>.\<close>

definition format_val :: "env \<Rightarrow> pyval \<Rightarrow> string" where
  "format_val e v = (case v of PStr s \<Rightarrow> s | _ \<Rightarrow> py_repr e v)"

text \<open>
  \<open>subprocess.run(argv, check=True)\<close>: an argument that is not a string raises
  \<open>TypeError\<close> before any process is started; otherwise the process runs, and a non-zero
  exit status raises \<open>CalledProcessError\<close>, which each caller catches. The git executable
  is taken to be installed, so that starting it does not fail. An argument with a NUL
  character is refused with \<open>ValueError\<close> before the process starts; this definition, which
  the executor uses, leaves that outcome out, and the statement about the exit status
  keeps such arguments out by hypothesis. The two queries below model it.
\<close>

definition subprocess_run :: "env \<Rightarrow> pyval list \<Rightarrow> event list \<times> (exn + proc_result)" where
  "subprocess_run e argv =
     (if list_all is_str argv
      then ([Subprocess (map the_str argv)], Inr (git e (map the_str argv)))
      else ([], Inl TypeError))"

section \<open>Response parser\<close>

text \<open>
  Lines 155 to 160 of \<open>parse_response\<close>: trim, drop a leading \<open>```json\<close>, drop a trailing
  \<open>```\<close>, trim again.
\<close>

definition clean_result :: "string \<Rightarrow> string" where
  "clean_result raw =
     (let r = py_strip raw;
          r = (if prefix ''```json'' r then drop 7 r else r);
          r = (if suffix ''```'' r then take (length r - 3) r else r)
      in py_strip r)"

text \<open>
  \<open>data["commit_message"]\<close>: a dictionary gives the value or raises \<open>KeyError\<close>; a list, a
  string and every other decoded value raise \<open>TypeError\<close>. Only \<open>JSONDecodeError\<close> is
  caught.
\<close>

fun subscript :: "pyval \<Rightarrow> string \<Rightarrow> exn + pyval" where
  "subscript (PDict kvs) k = (case map_of kvs k of None \<Rightarrow> Inl (KeyError k) | Some v \<Rightarrow> Inr v)"
| "subscript v k = Inl TypeError"

fun dict_get :: "pyval \<Rightarrow> string \<Rightarrow> exn + pyval" where
  "dict_get (PDict kvs) k = (case map_of kvs k of None \<Rightarrow> Inr PNone | Some v \<Rightarrow> Inr v)"
| "dict_get v k = Inl AttributeError"

definition parse_response ::
  "(string \<Rightarrow> pyval option) \<Rightarrow> string \<Rightarrow> bool \<Rightarrow> event list \<times> (exn + pyval \<times> pyval)" where
  \<open>parse_response json_loads raw wants_branch =
     (let result = clean_result raw
      in case json_loads result of
           None \<Rightarrow>
             ([Print (''AI Response: '' @ result), Print ''Failed to parse JSON response.''],
              Inr (PNone, PNone))
         | Some data \<Rightarrow>
             (case subscript data ''commit_message'' of
                Inl x \<Rightarrow> ([], Inl x)
              | Inr commit_msg \<Rightarrow>
                  (if wants_branch
                   then (case dict_get data ''branch_name'' of
                           Inl x \<Rightarrow> ([], Inl x)
                         | Inr branch_name \<Rightarrow> ([], Inr (commit_msg, branch_name)))
                   else ([], Inr (commit_msg, PNone)))))\<close>

section \<open>Repository inspector\<close>

definition status_command :: "string list" where
  "status_command = [''git'', ''status'', ''--porcelain'', ''--untracked-files=all'']"

text \<open>
  An argument that holds a NUL character makes \<open>subprocess.run\<close> raise \<open>ValueError\<close>
  before any process is started. The two queries catch \<open>CalledProcessError\<close> only: a
  \<open>ValueError\<close> and a \<open>UnicodeDecodeError\<close> leave them as exceptions. The status command
  line is fixed and holds no NUL.
\<close>

definition has_nul :: "string \<Rightarrow> bool" where
  "has_nul s = (CHR 0x00 \<in> set s)"

definition get_git_status :: "env \<Rightarrow> event list \<times> (exn + string option)" where
  "get_git_status e =
     (case git e status_command of
        Completed out \<Rightarrow> ([Subprocess status_command], Inr (Some out))
      | CalledProcessError msg \<Rightarrow>
          ([Subprocess status_command,
            Print ''Not in a git repository or git status failed.''], Inr None)
      | Undecodable \<Rightarrow> ([Subprocess status_command], Inl UnicodeDecodeError))"

text \<open>\<open>config.get("ignore_files")\<close> is skipped when the key is absent or the list empty.\<close>

definition diff_command :: "config \<Rightarrow> string list" where
  "diff_command c =
     [''git'', ''diff'', ''--staged''] @
     (case ignore_files c of
        None \<Rightarrow> []
      | Some files \<Rightarrow> concat (map (\<lambda>file. [''--'', '':(exclude)'' @ file]) files))"

definition get_git_diff :: "env \<Rightarrow> config \<Rightarrow> event list \<times> (exn + string)" where
  "get_git_diff e c =
     (if list_ex has_nul (diff_command c) then ([], Inl ValueError)
      else case git e (diff_command c) of
             Completed out \<Rightarrow> ([Subprocess (diff_command c)], Inr out)
           | CalledProcessError msg \<Rightarrow> ([Subprocess (diff_command c)], Inr [])
           | Undecodable \<Rightarrow> ([Subprocess (diff_command c)], Inl UnicodeDecodeError))"

section \<open>Prompt builder\<close>

text \<open>The text of an optional string, empty when it is \<open>None\<close>: it is truthy when not empty.\<close>

fun opt_text :: "string option \<Rightarrow> string" where
  "opt_text None = []"
| "opt_text (Some s) = s"

definition task_text :: string where
  \<open>task_text =
     ''# Task\<newline>'' @
     ''I will provide you with the output of `git status` and `git diff`. Based on this, generate:\<newline>'' @
     ''- A **Commit Message** that follows the **Conventional Commits** specification.\<newline>''\<close>

definition branch_task_text :: string where
  \<open>branch_task_text = ''- A **Branch Name** that follows the specification.\<newline>''\<close>

definition requirements_text :: string where
  \<open>requirements_text =
     ''# Requirements\<newline>'' @
     ''## Commit Message Specification\<newline>'' @
     ''- **Header**: `<type>(<scope>): <short summary>` (no more than 50 characters)\<newline>'' @
     ''  - Type: feat, fix, docs, style, refactor, perf, test, build, ci, chore, revert.\<newline>'' @
     ''  - Scope: Optional, indicates the module (e.g., auth, ui, parser, gradle).\<newline>'' @
     ''  - Summary: Starts with a verb in present tense, lowercase first letter, no period at the end, describes the changes in detail.\<newline>'' @
     ''- **Body**: (if necessary) Detailed explanation of the reason and logic for the changes.\<newline>'' @
     ''- **Footer**: (if necessary) List Breaking Changes or related Issue IDs.\<newline>'' @
     ''Example:\<newline>'' @
     ''```\<newline>'' @
     ''feat(auth): add login with OAuth 2.0\<newline>'' @
     ''\<newline>'' @
     ''- Implement OAuth 2.0 login flow using Google and Facebook.\<newline>'' @
     ''- Update user model to store OAuth tokens.\<newline>'' @
     ''\<newline>'' @
     ''BREAKING CHANGE: user passwords are no longer stored in the database.\<newline>'' @
     ''Closes #123\<newline>'' @
     ''```\<newline>''\<close>

definition branch_spec_text :: string where
  \<open>branch_spec_text =
     ''## Branch Name Specification\<newline>'' @
     ''- Format: `type/short-description` (e.g., feat/login-api, fix/overflow-issue)\<newline>'' @
     ''- Use lowercase letters, separate words with hyphens `-`.\<newline>'' @
     ''- Types: feat, fix, docs, style, refactor, perf, test, chore.\<newline>''\<close>

definition output_format_text :: string where
  \<open>output_format_text =
     ''# Important\<newline>'' @
     ''You must strictly follow the specifications without any deviations.\<newline>'' @
     ''# Output Format\<newline>'' @
     ''You can only output content similar to the following: ''\<close>

definition extra_header :: string where
  \<open>extra_header = ''# Extra Information\<newline>''\<close>

definition build_prompt :: "string \<Rightarrow> string \<Rightarrow> args \<Rightarrow> config \<Rightarrow> string" where
  \<open>build_prompt status diff a c =
     (let format_str = ''{"commit_message": "..."'';
          format_str = (if branch a then format_str @ '', "branch_name": "..."'' else format_str);
          format_str = format_str @ ''}'';
          prompt = task_text;
          prompt = (if branch a then prompt @ branch_task_text else prompt);
          prompt = prompt @ requirements_text;
          prompt = (if branch a then prompt @ branch_spec_text else prompt);
          prompt = prompt @ (output_format_text @ format_str @ ''\<newline>'');
          prompt =
            (if opt_text (extra_info a) \<noteq> [] \<or> opt_text (cfg_extra_info c) \<noteq> []
             then (let prompt = prompt @ extra_header;
                       prompt = (if opt_text (cfg_extra_info c) \<noteq> []
                                 then prompt @ opt_text (cfg_extra_info c) @ ''\<newline>''
                                 else prompt);
                       prompt = (if opt_text (extra_info a) \<noteq> []
                                 then prompt @ opt_text (extra_info a) @ ''\<newline>''
                                 else prompt)
                   in prompt)
             else prompt)
      in prompt @ ''# Context\<newline>## Git status:\<newline>'' @ status @
           ''\<newline>## Git diff:\<newline>'' @ diff @ ''\<newline>'')\<close>

section \<open>Generation client\<close>

definition DEFAULT_MODEL :: string where
  "DEFAULT_MODEL = ''gpt-3.5-turbo''"

text \<open>\<open>config.get("model", DEFAULT_MODEL)\<close> and \<open>config.get("max_tokens") or None\<close>.\<close>

definition model_of :: "config \<Rightarrow> string" where
  "model_of c = (case model c of None \<Rightarrow> DEFAULT_MODEL | Some m \<Rightarrow> m)"

definition max_tokens_of :: "config \<Rightarrow> int option" where
  "max_tokens_of c =
     (case max_tokens c of None \<Rightarrow> None | Some n \<Rightarrow> if n = 0 then None else Some n)"

definition none_strip_message :: string where
  "none_strip_message =
     [CHR 0x27] @ ''NoneType'' @ [CHR 0x27] @ '' object has no attribute '' @
     [CHR 0x27] @ ''strip'' @ [CHR 0x27]"

text \<open>
  \<open>except Exception\<close> catches every failure of the request, and also the attribute error when
  the message content is \<open>None\<close>; the function then prints and returns \<open>None\<close>.
\<close>

definition call_openai :: "env \<Rightarrow> string \<Rightarrow> config \<Rightarrow> event list \<times> string option" where
  "call_openai e prompt c =
     (let request = ChatCompletion (model_of c) prompt (max_tokens_of c)
      in case create e (model_of c) prompt (max_tokens_of c) of
           ApiError msg \<Rightarrow> ([request, Print (''OpenAI API error: '' @ msg)], None)
         | ApiResponse content usage_opt \<Rightarrow>
             (case content of
                None \<Rightarrow> ([request, Print (''OpenAI API error: '' @ none_strip_message)], None)
              | Some text \<Rightarrow>
                  ([request] @
                   (case usage_opt of
                      None \<Rightarrow> []
                    | Some u \<Rightarrow>
                        [Print (''Total tokens: '' @ str_nat (total_tokens u)),
                         Print (''Prompt tokens: '' @ str_nat (prompt_tokens u)),
                         Print (''Completion tokens: '' @ str_nat (completion_tokens u))]),
                   Some (py_strip text))))"

section \<open>Command executor\<close>

definition commit_command :: "pyval \<Rightarrow> pyval list" where
  "commit_command commit_msg = [PStr ''git'', PStr ''commit'', PStr ''-m'', commit_msg]"

definition checkout_command :: "pyval \<Rightarrow> pyval list" where
  "checkout_command branch_name = [PStr ''git'', PStr ''checkout'', PStr ''-b'', branch_name]"

text \<open>\<open>branch_name or "main"\<close> is the last argument of the push.\<close>

definition push_command :: "pyval \<Rightarrow> pyval list" where
  "push_command branch_name =
     [PStr ''git'', PStr ''push'', PStr ''-u'', PStr ''origin'',
      if truthy branch_name then branch_name else PStr ''main'']"

text \<open>
  The three blocks of \<open>execute_git_commands\<close>, in the order of the source: the commit
  (lines 175 to 180), the checkout when the branch name is truthy (lines 183 to 189), the
  push when \<open>--push\<close> is set (lines 192 to 200). A block that returns \<open>False\<close> or raises
  ends the function; \<open>Inr True\<close> of a block means that the next one runs.
\<close>

definition checkout_step :: "env \<Rightarrow> pyval \<Rightarrow> event list \<times> (exn + bool)" where
  "checkout_step e branch_name =
     (if truthy branch_name
      then (case subprocess_run e (checkout_command branch_name) of
              (ev, Inl x) \<Rightarrow> (ev, Inl x)
            | (ev, Inr (CalledProcessError msg)) \<Rightarrow>
                (ev @ [Print (''Git checkout failed: '' @ msg)], Inr False)
            | (ev, Inr ended) \<Rightarrow>
                (ev @ [Print (''Checked out to new branch: '' @ format_val e branch_name)],
                 Inr True))
      else ([], Inr True))"

definition push_step :: "env \<Rightarrow> pyval \<Rightarrow> args \<Rightarrow> event list \<times> (exn + bool)" where
  "push_step e branch_name a =
     (if push a
      then (case subprocess_run e (push_command branch_name) of
              (ev, Inl x) \<Rightarrow> (ev, Inl x)
            | (ev, Inr (CalledProcessError msg)) \<Rightarrow>
                (ev @ [Print (''Git push failed: '' @ msg)], Inr False)
            | (ev, Inr ended) \<Rightarrow> (ev @ [Print ''Pushed.''], Inr True))
      else ([], Inr True))"

definition execute_git_commands ::
  "env \<Rightarrow> pyval \<Rightarrow> pyval \<Rightarrow> args \<Rightarrow> event list \<times> (exn + bool)" where
  "execute_git_commands e commit_msg branch_name a =
     (case subprocess_run e (commit_command commit_msg) of
        (ev1, Inl x) \<Rightarrow> (ev1, Inl x)
      | (ev1, Inr (CalledProcessError msg)) \<Rightarrow>
          (ev1 @ [Print (''Git commit failed: '' @ msg)], Inr False)
      | (ev1, Inr ended) \<Rightarrow>
          (case checkout_step e branch_name of
             (ev2, Inl x) \<Rightarrow> (ev1 @ [Print ''Committed.''] @ ev2, Inl x)
           | (ev2, Inr False) \<Rightarrow> (ev1 @ [Print ''Committed.''] @ ev2, Inr False)
           | (ev2, Inr True) \<Rightarrow>
               (case push_step e branch_name a of
                  (ev3, r) \<Rightarrow> (ev1 @ [Print ''Committed.''] @ ev2 @ ev3, r))))"

section \<open>Run orchestrator\<close>

definition generate_question :: string where
  "generate_question = ''Generate commit message? (y/n): ''"

definition execute_question :: string where
  "execute_question = ''Execute git commit and checkout? (y/n): ''"

text \<open>
  Lines 257 to 260: the prompt is written when \<open>--output\<close> names a file; \<open>open\<close> raises
  \<open>OSError\<close> when the file cannot be opened for writing.
\<close>

definition write_prompt :: "env \<Rightarrow> args \<Rightarrow> string \<Rightarrow> event list \<times> (exn + unit)" where
  "write_prompt e a prompt =
     (if opt_text (output_path a) \<noteq> []
      then (if writable e (opt_text (output_path a))
            then ([WriteFile (opt_text (output_path a)) prompt,
                   Print (''Prompt written to '' @ opt_text (output_path a))], Inr ())
            else ([], Inl OSError))
      else ([], Inr ()))"

text \<open>
  Lines 263 to 270: the token estimate. Only \<open>KeyError\<close> is caught, and answered with the
  two fallback lines.
\<close>

definition token_report :: "env \<Rightarrow> config \<Rightarrow> string \<Rightarrow> event list \<times> (exn + unit)" where
  "token_report e c prompt =
     (case encoding_for_model e (model_of c) of
        UnknownModel \<Rightarrow>
          ([Print ''Warning: Unknown model for token counting.'',
            Print (''Prompt length (chars): '' @ str_nat (length prompt))], Inr ())
      | Encoder encode \<Rightarrow>
          (case encode prompt of
             None \<Rightarrow> ([], Inl ValueError)
           | Some n \<Rightarrow> ([Print (''Prompt token count: '' @ str_nat n)], Inr ()))
      | Unavailable \<Rightarrow> ([], Inl OSError))"

text \<open>
  The two confirmation gates (lines 273 to 276 and 295 to 298) have one shape: nothing is
  asked with \<open>--yes\<close>; otherwise the run goes on when the answer, in lower case, is \<open>y\<close>.
\<close>

definition confirm :: "env \<Rightarrow> args \<Rightarrow> string \<Rightarrow> event list \<times> (exn + bool)" where
  "confirm e a question =
     (if yes a then ([], Inr True)
      else case stdin e question of
             None \<Rightarrow> ([Input question], Inl EOFError)
           | Some answer \<Rightarrow> ([Input question], Inr (py_lower answer = ''y'')))"

text \<open>Lines 218 to 233: the \<open>--init\<close> run.\<close>

definition init_config :: "env \<Rightarrow> event list \<times> (exn + unit)" where
  "init_config e =
     (let c = settings e;
          q1 = ''Enter OpenAI API key: '';
          q2 = ''Enter model (default: gpt-3.5-turbo): '';
          q3 = ''Enter base URL (optional): '';
          q4 = ''Enter max tokens (optional): ''
      in case stdin e q1 of
           None \<Rightarrow> ([LoadConfig, Input q1], Inl EOFError)
         | Some api_key \<Rightarrow>
        (case stdin e q2 of
           None \<Rightarrow> ([LoadConfig, Input q1, Input q2], Inl EOFError)
         | Some m \<Rightarrow>
        (case stdin e q3 of
           None \<Rightarrow> ([LoadConfig, Input q1, Input q2, Input q3], Inl EOFError)
         | Some url \<Rightarrow>
        (case stdin e q4 of
           None \<Rightarrow> ([LoadConfig, Input q1, Input q2, Input q3, Input q4], Inl EOFError)
         | Some mt \<Rightarrow>
        (case (if mt \<noteq> [] then py_int e mt else Some 0) of
           None \<Rightarrow> ([LoadConfig, Input q1, Input q2, Input q3, Input q4], Inl ValueError)
         | Some n \<Rightarrow>
             ([LoadConfig, Input q1, Input q2, Input q3, Input q4,
               SaveConfig (c\<lparr>openai_api_key := Some api_key,
                              model := Some (if m \<noteq> [] then m else DEFAULT_MODEL),
                              base_url := (if url \<noteq> [] then Some url else base_url c),
                              max_tokens := Some n, ignore_files := Some [],
                              cfg_extra_info := Some []\<rparr>),
               Print ''Config initialized.''], Inr ()))))))"

text \<open>
  Lines 235 to 301. Every \<open>return\<close> of \<open>main\<close> is \<open>Inr ()\<close>; an exception that a step
  does not catch ends \<open>main\<close> with it; the value of \<open>execute_git_commands\<close> is dropped.
  Building the client (lines 241 to 245) sends nothing and is no event. The settings file,
  when there is one, is taken to hold a YAML mapping.
\<close>

definition main :: "env \<Rightarrow> args \<Rightarrow> event list \<times> (exn + unit)" where
  "main e a =
     (if init a then init_config e
      else
        let c = settings e in
        if opt_text (openai_api_key c) = []
        then ([LoadConfig, Print ''API key not found. Run --init first.''], Inr ())
        else
          case get_git_status e of
            (ev1, Inl x) \<Rightarrow> ([LoadConfig] @ ev1, Inl x)
          | (ev1, Inr None) \<Rightarrow> ([LoadConfig] @ ev1, Inr ())
          | (ev1, Inr (Some status)) \<Rightarrow>
          (case get_git_diff e c of
            (ev2, Inl x) \<Rightarrow> ([LoadConfig] @ ev1 @ ev2, Inl x)
          | (ev2, Inr diff) \<Rightarrow>
          (let prompt = build_prompt status diff a c in
           case write_prompt e a prompt of
            (ev3, Inl x) \<Rightarrow> ([LoadConfig] @ ev1 @ ev2 @ ev3, Inl x)
          | (ev3, Inr written) \<Rightarrow>
          (case token_report e c prompt of
            (ev4, Inl x) \<Rightarrow> ([LoadConfig] @ ev1 @ ev2 @ ev3 @ ev4, Inl x)
          | (ev4, Inr reported) \<Rightarrow>
          (case confirm e a generate_question of
            (ev5, Inl x) \<Rightarrow> ([LoadConfig] @ ev1 @ ev2 @ ev3 @ ev4 @ ev5, Inl x)
          | (ev5, Inr False) \<Rightarrow> ([LoadConfig] @ ev1 @ ev2 @ ev3 @ ev4 @ ev5, Inr ())
          | (ev5, Inr True) \<Rightarrow>
          (let evs = [LoadConfig] @ ev1 @ ev2 @ ev3 @ ev4 @ ev5 in
           case call_openai e prompt c of
            (ev6, None) \<Rightarrow> (evs @ ev6, Inr ())
          | (ev6, Some result) \<Rightarrow>
          (case parse_response (loads e) result (branch a) of
            (ev7, Inl x) \<Rightarrow> (evs @ ev6 @ ev7, Inl x)
          | (ev7, Inr (commit_msg, branch_name)) \<Rightarrow>
              if commit_msg = PNone then (evs @ ev6 @ ev7, Inr ())
              else
                let ev8 =
                      [Print ''Generated:''] @
                      (if truthy branch_name
                       then [Print (''Branch name: '' @ format_val e branch_name)]
                       else []) @
                      [Print (''Commit message: '' @ format_val e commit_msg)]
                in
                (case confirm e a execute_question of
                   (ev9, Inl x) \<Rightarrow> (evs @ ev6 @ ev7 @ ev8 @ ev9, Inl x)
                 | (ev9, Inr False) \<Rightarrow> (evs @ ev6 @ ev7 @ ev8 @ ev9, Inr ())
                 | (ev9, Inr True) \<Rightarrow>
                     (case execute_git_commands e commit_msg branch_name a of
                        (ev10, Inl x) \<Rightarrow> (evs @ ev6 @ ev7 @ ev8 @ ev9 @ ev10, Inl x)
                      | (ev10, Inr ok) \<Rightarrow>
                          (evs @ ev6 @ ev7 @ ev8 @ ev9 @ ev10, Inr ()))))))))))"


section \<open>The contracts of the specification\<close>

text \<open>
  The executor's contract in the words of the specification: the steps of a plan in their
  fixed order (commit; branch creation when a branch name is present; push when the push
  option is set), and a run of them that stops after the first step that fails. A plan
  carries a message that is a string and a branch name that is a string or absent. A
  response is handled when it does not decode, or decodes to an object of the wire format:
  its \<open>commit_message\<close> is a string and its \<open>branch_name\<close> is absent, \<open>None\<close> or a string,
  neither with a NUL character (git cannot take one as an argument). A run is undisturbed
  when it meets none of the errors that the program leaves uncaught before and around the
  generation: the output of the two queries is text, no exclude path holds a NUL, the
  output file (when one is asked for) can be opened, the token estimator knows the model
  or says that it does not, and the questions are answered unless \<open>--yes\<close> is set. The
  responses are handled when every text that the backend returns is.
\<close>

definition spec_steps :: "string \<Rightarrow> pyval \<Rightarrow> bool \<Rightarrow> string list list" where
  "spec_steps m branch_name p =
     [[''git'', ''commit'', ''-m'', m]] @
     (if truthy branch_name then [[''git'', ''checkout'', ''-b'', the_str branch_name]] else []) @
     (if p then [[''git'', ''push'', ''-u'', ''origin'',
                  if truthy branch_name then the_str branch_name else ''main'']] else [])"

fun spec_run :: "(string list \<Rightarrow> proc_result) \<Rightarrow> string list list \<Rightarrow> string list list" where
  "spec_run g [] = []"
| "spec_run g (c # cs) = c # (if failed (g c) then [] else spec_run g cs)"

fun is_plan_branch :: "pyval \<Rightarrow> bool" where
  "is_plan_branch PNone = True"
| "is_plan_branch (PStr b) = True"
| "is_plan_branch v = False"







text \<open>
  The three parts of the prompt, as \<open>build_prompt\<close> appends them: the instructions, which
  depend on the branch option only (the task, the commit-message specification, the
  branch-name specification, the output format), the extra-information section, and the
  context with the status and the diff. The two headers are the first lines of the
  branch-name specification and of the extra-information section, without their line feed.
\<close>

definition branch_header :: string where
  "branch_header = ''## Branch Name Specification''"

definition extra_title :: string where
  "extra_title = ''# Extra Information''"

definition fixed_part :: "bool \<Rightarrow> string" where
  \<open>fixed_part b =
     task_text @ (if b then branch_task_text else []) @ requirements_text @
     (if b then branch_spec_text else []) @ output_format_text @
     ''{"commit_message": "..."'' @ (if b then '', "branch_name": "..."'' else []) @ ''}'' @
     ''\<newline>''\<close>

definition extra_part :: "string \<Rightarrow> string \<Rightarrow> string" where
  \<open>extra_part cfg run =
     (if run \<noteq> [] \<or> cfg \<noteq> []
      then extra_header @ (if cfg \<noteq> [] then cfg @ ''\<newline>'' else []) @
           (if run \<noteq> [] then run @ ''\<newline>'' else [])
      else [])\<close>

definition context_part :: "string \<Rightarrow> string \<Rightarrow> string" where
  \<open>context_part status diff =
     ''# Context\<newline>## Git status:\<newline>'' @ status @
     ''\<newline>## Git diff:\<newline>'' @ diff @ ''\<newline>''\<close>

section \<open>Example runs\<close>

text \<open>
  Concrete worlds for the examples below: a settings file with a key, a backend that
  answers with one JSON object, a decoder that knows that object's text and rejects every
  other text, a user who answers \<open>y\<close>, a token estimator that does not know the model, and
  a git that succeeds, that fails everywhere, that fails at one subcommand, or whose
  output at one subcommand is not text.
\<close>

definition example_config :: config where
  "example_config =
     \<lparr>openai_api_key = Some ''sk-test'', model = None, base_url = None, max_tokens = None,
      ignore_files = None, cfg_extra_info = None\<rparr>"

definition example_reply :: string where
  \<open>example_reply = ''{"commit_message": "fix(parser): handle empty input"}''\<close>

definition example_env :: "(string list \<Rightarrow> proc_result) \<Rightarrow> env" where
  "example_env g =
     \<lparr>settings = example_config, git = g, stdin = (\<lambda>q. Some ''y''),
      writable = (\<lambda>path. True),
      create = (\<lambda>m p t. ApiResponse (Some example_reply) None),
      encoding_for_model = (\<lambda>m. UnknownModel),
      loads = map_of [(example_reply,
                       PDict [(''commit_message'', PStr ''fix(parser): handle empty input'')])],
      py_repr = (\<lambda>v. []), py_int = (\<lambda>s. None)\<rparr>"


definition git_not_a_repository :: "string list \<Rightarrow> proc_result" where
  "git_not_a_repository argv = CalledProcessError ''returned non-zero exit status 128''"

definition git_failing_at :: "string \<Rightarrow> string list \<Rightarrow> proc_result" where
  "git_failing_at sub argv =
     (if prefix [''git'', sub] argv
      then CalledProcessError ''returned non-zero exit status 1'' else Completed [])"

definition git_undecodable_at :: "string \<Rightarrow> string list \<Rightarrow> proc_result" where
  "git_undecodable_at sub argv =
     (if prefix [''git'', sub] argv then Undecodable else Completed [])"

definition example_args :: "bool \<Rightarrow> bool \<Rightarrow> args" where
  "example_args b p =
     \<lparr>init = False, push = p, yes = True, branch = b, extra_info = None, output_path = None\<rparr>"

section \<open>Trimming and fences\<close>

lemma backtick_not_space: "\<not> py_isspace (CHR ''`'')" by (simp add: py_isspace_def)

lemma lbrace_not_space: "\<not> py_isspace (CHR ''{'')" by (simp add: py_isspace_def)

lemma rbrace_not_space: "\<not> py_isspace (CHR ''}'')" by (simp add: py_isspace_def)

lemma py_lstrip_spaces: "list_all py_isspace w \<Longrightarrow> py_lstrip (w @ s) = py_lstrip s"
  by (simp add: py_lstrip_def dropWhile_append2 list_all_iff)

lemma py_rstrip_spaces: "list_all py_isspace w \<Longrightarrow> py_rstrip (s @ w) = py_rstrip s"
proof -
  assume "list_all py_isspace w"
  then have "dropWhile py_isspace (rev w @ rev s) = dropWhile py_isspace (rev s)"
    by (intro dropWhile_append2) (simp add: list_all_iff)
  then show ?thesis by (simp add: py_rstrip_def)
qed

lemma py_lstrip_id: "s \<noteq> [] \<Longrightarrow> \<not> py_isspace (hd s) \<Longrightarrow> py_lstrip s = s"
  by (cases s) (simp_all add: py_lstrip_def)

lemma py_rstrip_id: "s \<noteq> [] \<Longrightarrow> \<not> py_isspace (last s) \<Longrightarrow> py_rstrip s = s"
  by (cases s rule: rev_cases) (simp_all add: py_rstrip_def)

lemma py_strip_core:
  assumes "list_all py_isspace w0" "list_all py_isspace w1"
    and "s \<noteq> []" "\<not> py_isspace (hd s)" "\<not> py_isspace (last s)"
  shows "py_strip (w0 @ s @ w1) = s"
proof -
  have "py_lstrip (w0 @ s @ w1) = s @ w1"
    using assms by (simp add: py_lstrip_spaces py_lstrip_id)
  then show ?thesis
    using assms by (simp add: py_strip_def py_rstrip_spaces py_rstrip_id)
qed

lemma clean_result_bare:
  assumes "list_all py_isspace w0" "list_all py_isspace w3"
    and "core \<noteq> []" "hd core = CHR ''{''" "last core = CHR ''}''"
  shows "clean_result (w0 @ core @ w3) = core"
proof -
  have s: "py_strip (w0 @ core @ w3) = core"
    using assms by (intro py_strip_core) (simp_all add: lbrace_not_space rbrace_not_space)
  have s': "py_strip core = core"
    using py_strip_core [of "[]" "[]" core] assms
    by (simp add: lbrace_not_space rbrace_not_space)
  have p: "\<not> prefix ''```json'' core"
    using assms by (cases core) auto
  have q: "\<not> suffix ''```'' core"
    using assms by (cases core rule: rev_cases) (auto simp: suffix_def)
  show ?thesis
    by (simp add: clean_result_def s p q s' Let_def)
qed

lemma clean_result_fenced:
  assumes "list_all py_isspace w0" "list_all py_isspace w1"
    and "list_all py_isspace w2" "list_all py_isspace w3"
    and "core \<noteq> []" "hd core = CHR ''{''" "last core = CHR ''}''"
  shows "clean_result (w0 @ ''```json'' @ w1 @ core @ w2 @ ''```'' @ w3) = core"
proof -
  let ?mid = "''```json'' @ w1 @ core @ w2 @ ''```''"
  have s: "py_strip (w0 @ ?mid @ w3) = ?mid"
    using assms(1,4) by (intro py_strip_core) (simp_all add: backtick_not_space)
  have d: "drop 7 ?mid = w1 @ core @ w2 @ ''```''"
    by simp
  have t: "take (length (w1 @ core @ w2 @ ''```'') - 3) (w1 @ core @ w2 @ ''```'') = w1 @ core @ w2"
    by simp
  have s': "py_strip (w1 @ core @ w2) = core"
    using assms by (intro py_strip_core) (simp_all add: lbrace_not_space rbrace_not_space)
  have q: "suffix ''```'' (w1 @ core @ w2 @ ''```'')"
    by (simp add: suffix_def) 
  have "clean_result (w0 @ ?mid @ w3) = core"
    unfolding clean_result_def Let_def s using d t s' q by simp
  then show ?thesis by simp
qed

lemma py_strip_fence_right: "py_strip (body @ ''```'') = py_lstrip body @ ''```''"
proof -
  have l: "py_lstrip (body @ ''```'') = py_lstrip body @ ''```''"
    by (simp add: py_lstrip_def dropWhile_append backtick_not_space)
  have "py_rstrip ((py_lstrip body @ ''``'') @ ''`'') = (py_lstrip body @ ''``'') @ ''`''"
    by (intro py_rstrip_id) (simp_all add: backtick_not_space)
  then show ?thesis by (simp add: py_strip_def l)
qed

lemma py_strip_lstrip: "py_strip (py_lstrip s) = py_strip s"
  by (simp add: py_strip_def py_lstrip_def)

lemma py_strip_fence_left: "py_strip (''```'' @ body) = ''```'' @ py_rstrip body"
proof -
  have l: "py_lstrip (''```'' @ body) = ''```'' @ body"
    by (simp add: py_lstrip_def backtick_not_space)
  have "dropWhile py_isspace (rev body @ ''```'') = dropWhile py_isspace (rev body) @ ''```''"
    by (simp add: dropWhile_append backtick_not_space)
  then have "py_rstrip (''```'' @ body) = ''```'' @ py_rstrip body"
    by (simp add: py_rstrip_def)
  then show ?thesis unfolding py_strip_def l .
qed

lemma clean_result_trailing_only:
  assumes "\<not> prefix ''```json'' (py_strip (body @ ''```''))"
  shows "clean_result (body @ ''```'') = py_strip body"
proof -
  have q: "suffix ''```'' (py_lstrip body @ ''```'')"
    by (simp add: suffix_def)
  show ?thesis
    using assms unfolding clean_result_def Let_def py_strip_fence_right
    by (simp add: q py_strip_lstrip)
qed

lemma clean_result_json_fence: "clean_result (''```json'' @ body @ ''```'') = py_strip body"
proof -
  have s: "py_strip (''```json'' @ body @ ''```'') = ''```json'' @ body @ ''```''"
    using py_strip_core [of "[]" "[]" "''```json'' @ body @ ''```''"]
    by (simp add: backtick_not_space)
  have q: "suffix ''```'' (body @ ''```'')"
    by (simp add: suffix_def)
  show ?thesis
    unfolding clean_result_def Let_def s using q by simp
qed

lemma clean_result_plain_fence:
  assumes "\<not> prefix ''json'' body"
  shows "clean_result (''```'' @ body @ ''```'') = ''```'' @ py_rstrip body"
proof -
  have s: "py_strip (''```'' @ body @ ''```'') = ''```'' @ body @ ''```''"
    using py_strip_core [of "[]" "[]" "''```'' @ body @ ''```''"]
    by (simp add: backtick_not_space)
  have p: "\<not> prefix ''```json'' (''```'' @ body @ ''```'')"
    using assms by (auto simp: prefix_def append_eq_Cons_conv)
  have q: "suffix ''```'' (''```'' @ body @ ''```'')"
    by (simp add: suffix_def)
  have t: "take (length (''```'' @ body @ ''```'') - 3) (''```'' @ body @ ''```'') = ''```'' @ body"
    by simp
  show ?thesis
    unfolding clean_result_def Let_def s using p q t py_strip_fence_left by simp
qed

lemma parse_response_decode_error:
  assumes "json_loads (clean_result raw) = None"
  shows "parse_response json_loads raw wants =
           ([Print (''AI Response: '' @ clean_result raw),
             Print ''Failed to parse JSON response.''], Inr (PNone, PNone))"
  using assms by (simp add: parse_response_def)

lemma parse_response_object:
  assumes "json_loads (clean_result raw) = Some (PDict d)"
    and "map_of d ''commit_message'' = Some v"
  shows "parse_response json_loads raw wants =
           ([], Inr (v, if wants then (case map_of d ''branch_name'' of
                                         None \<Rightarrow> PNone | Some b \<Rightarrow> b) else PNone))"
  using assms by (cases "map_of d ''branch_name''") (simp_all add: parse_response_def)

section \<open>The response parser\<close>

text \<open>
  Claim C4. Round trip of the parser. Let \<open>core\<close> be the text of a JSON object (it
  starts with an opening brace and ends with a closing brace) that the decoder decodes to
  a dictionary \<open>d\<close> with a string \<open>m\<close> under \<open>commit_message\<close>. Whether \<open>core\<close> is given
  bare or between a leading \<open>```json\<close> and a trailing \<open>```\<close>, with any white space
  around the text and the markers, \<open>parse_response\<close> prints nothing and returns \<open>m\<close> as the
  commit message and, when a branch name is wanted, the value \<open>d\<close> holds under
  \<open>branch_name\<close> (\<open>None\<close> when the key is absent), and \<open>None\<close> when no branch name is
  wanted.
\<close>

theorem parse_response_roundtrip:
  assumes "json_loads core = Some (PDict d)"
    and "map_of d ''commit_message'' = Some (PStr m)"
    and "core \<noteq> []" and "hd core = CHR ''{''" and "last core = CHR ''}''"
    and "list_all py_isspace w0" and "list_all py_isspace w1"
    and "list_all py_isspace w2" and "list_all py_isspace w3"
    and "raw = w0 @ core @ w3 \<or> raw = w0 @ ''```json'' @ w1 @ core @ w2 @ ''```'' @ w3"
  shows "parse_response json_loads raw wants =
           ([], Inr (PStr m, if wants then (case map_of d ''branch_name'' of
                                              None \<Rightarrow> PNone | Some b \<Rightarrow> b) else PNone))"
proof -
  have bare: "clean_result (w0 @ core @ w3) = core"
    by (rule clean_result_bare [OF assms(6,9,3,4,5)])
  have fenced: "clean_result (w0 @ ''```json'' @ w1 @ core @ w2 @ ''```'' @ w3) = core"
    by (rule clean_result_fenced [OF assms(6,7,8,9,3,4,5)])
  from assms(10) have c: "clean_result raw = core"
  proof
    assume r: "raw = w0 @ core @ w3"
    show ?thesis unfolding r by (rule bare)
  next
    assume r: "raw = w0 @ ''```json'' @ w1 @ core @ w2 @ ''```'' @ w3"
    show ?thesis unfolding r by (rule fenced)
  qed
  have "json_loads (clean_result raw) = Some (PDict d)"
    unfolding c by (rule assms(1))
  then show ?thesis
    using assms(2) by (rule parse_response_object)
qed

theorem parse_response_roundtrip_witness:
  \<open>list_all py_isspace ''\<newline>'' \<and>
   parse_response
     (map_of [(''{"commit_message": "fix: x", "branch_name": "fix/x"}'',
               PDict [(''commit_message'', PStr ''fix: x''), (''branch_name'', PStr ''fix/x'')])])
     (''```json'' @ ''\<newline>'' @ ''{"commit_message": "fix: x", "branch_name": "fix/x"}'' @
      ''\<newline>'' @ ''```'') True
   = ([], Inr (PStr ''fix: x'', PStr ''fix/x''))\<close>
  using parse_response_roundtrip
    [of \<open>map_of [(''{"commit_message": "fix: x", "branch_name": "fix/x"}'',
               PDict [(''commit_message'', PStr ''fix: x''), (''branch_name'', PStr ''fix/x'')])]\<close>
        \<open>''{"commit_message": "fix: x", "branch_name": "fix/x"}''\<close>
        \<open>[(''commit_message'', PStr ''fix: x''), (''branch_name'', PStr ''fix/x'')]\<close>
        \<open>''fix: x''\<close> \<open>[]\<close> \<open>''\<newline>''\<close> \<open>''\<newline>''\<close> \<open>[]\<close>
        \<open>''```json'' @ ''\<newline>'' @ ''{"commit_message": "fix: x", "branch_name": "fix/x"}'' @
      ''\<newline>'' @ ''```''\<close> True]
  by (simp add: py_isspace_def)

text \<open>
  Claim C1, as amended. When the cleaned text is not well-formed JSON, \<open>parse_response\<close>
  prints it and returns \<open>(None, None)\<close>, never a partly filled plan. When the text decodes
  to an object that has the key \<open>commit_message\<close>, the value under that key is returned as
  it was decoded, whatever it is: the parser checks neither its type nor that it is not
  empty. The example after the theorem decodes an object whose message is the empty
  string: the result is a plan with an empty message, not the rejection.
\<close>

theorem parse_response_rejection:
  "(json_loads (clean_result raw) = None \<longrightarrow>
      parse_response json_loads raw wants =
        ([Print (''AI Response: '' @ clean_result raw),
          Print ''Failed to parse JSON response.''], Inr (PNone, PNone)))
   \<and> (json_loads (clean_result raw) = Some (PDict d) \<and> map_of d ''commit_message'' = Some v \<longrightarrow>
      parse_response json_loads raw wants =
        ([], Inr (v, if wants then (case map_of d ''branch_name'' of
                                      None \<Rightarrow> PNone | Some b \<Rightarrow> b) else PNone)))"
proof (intro conjI impI)
  assume "json_loads (clean_result raw) = None"
  then show "parse_response json_loads raw wants =
        ([Print (''AI Response: '' @ clean_result raw),
          Print ''Failed to parse JSON response.''], Inr (PNone, PNone))"
    by (rule parse_response_decode_error)
next
  assume h: "json_loads (clean_result raw) = Some (PDict d) \<and> map_of d ''commit_message'' = Some v"
  then have 1: "json_loads (clean_result raw) = Some (PDict d)"
    and 2: "map_of d ''commit_message'' = Some v"
    by simp_all
  show "parse_response json_loads raw wants =
           ([], Inr (v, if wants then (case map_of d ''branch_name'' of
                                         None \<Rightarrow> PNone | Some b \<Rightarrow> b) else PNone))"
    using 1 2 by (rule parse_response_object)
qed

theorem parse_response_rejection_witness:
  \<open>parse_response
     (map_of [(''{"commit_message": "x"}'', PDict [(''commit_message'', PStr ''x'')])])
     ''Sorry, no changes found.'' True =
     ([Print ''AI Response: Sorry, no changes found.'',
       Print ''Failed to parse JSON response.''], Inr (PNone, PNone))
   \<and> parse_response
          (map_of [(''{"commit_message": "x"}'', PDict [(''commit_message'', PStr ''x'')])])
          ''{"commit_message": "x"}'' True = ([], Inr (PStr ''x'', PNone))\<close>
proof -
  have c: "clean_result ''Sorry, no changes found.'' = ''Sorry, no changes found.''"
    by (simp add: clean_result_def py_strip_def py_lstrip_def py_rstrip_def py_isspace_def
        suffix_def)
  have d: \<open>clean_result ''{"commit_message": "x"}'' = ''{"commit_message": "x"}''\<close>
    by (simp add: clean_result_def py_strip_def py_lstrip_def py_rstrip_def py_isspace_def
        suffix_def)
  from parse_response_rejection
    [of \<open>map_of [(''{"commit_message": "x"}'', PDict [(''commit_message'', PStr ''x'')])]\<close>
        \<open>''Sorry, no changes found.''\<close> True]
  have 1: \<open>parse_response
     (map_of [(''{"commit_message": "x"}'', PDict [(''commit_message'', PStr ''x'')])])
     ''Sorry, no changes found.'' True =
     ([Print ''AI Response: Sorry, no changes found.'',
       Print ''Failed to parse JSON response.''], Inr (PNone, PNone))\<close>
    unfolding c by simp
  from parse_response_rejection
    [of \<open>map_of [(''{"commit_message": "x"}'', PDict [(''commit_message'', PStr ''x'')])]\<close>
        \<open>''{"commit_message": "x"}''\<close> True \<open>[(''commit_message'', PStr ''x'')]\<close> \<open>PStr ''x''\<close>]
  have 2: \<open>parse_response
          (map_of [(''{"commit_message": "x"}'', PDict [(''commit_message'', PStr ''x'')])])
          ''{"commit_message": "x"}'' True = ([], Inr (PStr ''x'', PNone))\<close>
    unfolding d by simp
  from 1 2 show ?thesis by (rule conjI)
qed

theorem parse_response_rejection_counterexample:
  \<open>parse_response
     (map_of [(''{"commit_message": ""}'', PDict [(''commit_message'', PStr [])])])
     ''{"commit_message": ""}'' False = ([], Inr (PStr [], PNone))\<close>
  by (simp add: parse_response_def clean_result_def py_strip_def py_lstrip_def py_rstrip_def
      py_isspace_def suffix_def)

text \<open>
  Claim C10. The two fence removals are independent. For every \<open>body\<close>: between a leading
  \<open>```json\<close> and a trailing \<open>```\<close> the result is the trimmed body; a trailing \<open>```\<close>
  is removed also when the trimmed text has no leading \<open>```json\<close>; a leading \<open>```\<close>
  that is not followed by \<open>json\<close> stays, so that the text handed to the decoder still
  starts with it; and a decoder that rejects every text starting with a backquote then
  makes \<open>parse_response\<close> return \<open>(None, None)\<close>.
\<close>

theorem fence_stripping_independent:
  "clean_result (''```json'' @ body @ ''```'') = py_strip body
   \<and> (\<not> prefix ''```json'' (py_strip (body @ ''```'')) \<longrightarrow>
        clean_result (body @ ''```'') = py_strip body)
   \<and> (\<not> prefix ''json'' body \<longrightarrow>
        clean_result (''```'' @ body @ ''```'') = ''```'' @ py_rstrip body)
   \<and> (\<not> prefix ''json'' body \<and> (\<forall>t. json_loads (CHR 0x60 # t) = None) \<longrightarrow>
        parse_response json_loads (''```'' @ body @ ''```'') wants =
          ([Print (''AI Response: '' @ ''```'' @ py_rstrip body),
            Print ''Failed to parse JSON response.''], Inr (PNone, PNone)))"
proof (intro conjI impI)
  show "clean_result (''```json'' @ body @ ''```'') = py_strip body"
    by (rule clean_result_json_fence)
next
  assume "\<not> prefix ''```json'' (py_strip (body @ ''```''))"
  then show "clean_result (body @ ''```'') = py_strip body"
    by (rule clean_result_trailing_only)
next
  assume "\<not> prefix ''json'' body"
  then show "clean_result (''```'' @ body @ ''```'') = ''```'' @ py_rstrip body"
    by (rule clean_result_plain_fence)
next
  assume h: "\<not> prefix ''json'' body \<and> (\<forall>t. json_loads (CHR 0x60 # t) = None)"
  then have "\<not> prefix ''json'' body"
    by simp
  then have c: "clean_result (''```'' @ body @ ''```'') = ''```'' @ py_rstrip body"
    by (rule clean_result_plain_fence)
  from h have "json_loads (''```'' @ py_rstrip body) = None"
    by simp
  then have "json_loads (clean_result (''```'' @ body @ ''```'')) = None"
    unfolding c .
  then have "parse_response json_loads (''```'' @ body @ ''```'') wants =
          ([Print (''AI Response: '' @ clean_result (''```'' @ body @ ''```'')),
            Print ''Failed to parse JSON response.''], Inr (PNone, PNone))"
    by (rule parse_response_decode_error)
  then show "parse_response json_loads (''```'' @ body @ ''```'') wants =
          ([Print (''AI Response: '' @ ''```'' @ py_rstrip body),
            Print ''Failed to parse JSON response.''], Inr (PNone, PNone))"
    unfolding c .
qed

theorem fence_stripping_independent_witness:
  \<open>\<not> prefix ''json'' ''\<newline>{"commit_message": "x"}\<newline>''
   \<and> clean_result (''```'' @ ''\<newline>{"commit_message": "x"}\<newline>'' @ ''```'') =
       ''```'' @ ''\<newline>{"commit_message": "x"}''
   \<and> snd (parse_response
        (map_of [(''{"commit_message": "x"}'', PDict [(''commit_message'', PStr ''x'')])])
        (''```'' @ ''\<newline>{"commit_message": "x"}\<newline>'' @ ''```'') False) = Inr (PNone, PNone)\<close>
proof -
  have r: \<open>py_rstrip ''\<newline>{"commit_message": "x"}\<newline>'' = ''\<newline>{"commit_message": "x"}''\<close>
    by (simp add: py_rstrip_def py_isspace_def)
  have p: \<open>\<not> prefix ''json'' ''\<newline>{"commit_message": "x"}\<newline>''\<close>
    by simp
  have l: \<open>\<forall>t. map_of [(''{"commit_message": "x"}'', PDict [(''commit_message'', PStr ''x'')])]
              (CHR 0x60 # t) = None\<close>
    by simp
  from fence_stripping_independent
    [of \<open>''\<newline>{"commit_message": "x"}\<newline>''\<close>
        \<open>map_of [(''{"commit_message": "x"}'', PDict [(''commit_message'', PStr ''x'')])]\<close> False]
    p l
  show ?thesis
    unfolding r by simp
qed

section \<open>The command executor\<close>

lemma commands_simps:
  "commands [] = []"
  "commands (Subprocess argv # evs) = argv # commands evs"
  "commands (Print s # evs) = commands evs"
  "commands (Input s # evs) = commands evs"
  "commands (LoadConfig # evs) = commands evs"
  "commands (SaveConfig c # evs) = commands evs"
  "commands (WriteFile p s # evs) = commands evs"
  "commands (ChatCompletion m q t # evs) = commands evs"
  "commands (evs @ evs') = commands evs @ commands evs'"
  by (simp_all add: commands_def)

lemma requests_simps:
  "requests [] = []"
  "requests (Subprocess argv # evs) = requests evs"
  "requests (Print s # evs) = requests evs"
  "requests (Input s # evs) = requests evs"
  "requests (LoadConfig # evs) = requests evs"
  "requests (SaveConfig c # evs) = requests evs"
  "requests (WriteFile p s # evs) = requests evs"
  "requests (ChatCompletion m q t # evs) = q # requests evs"
  "requests (evs @ evs') = requests evs @ requests evs'"
  by (simp_all add: requests_def)

lemma execute_commit_fails:
  assumes "failed (git e [''git'', ''commit'', ''-m'', m])"
  shows "commands (fst (execute_git_commands e (PStr m) bn a)) = [[''git'', ''commit'', ''-m'', m]]
       \<and> snd (execute_git_commands e (PStr m) bn a) = Inr False"
  using assms
  by (cases "git e [''git'', ''commit'', ''-m'', m]")
     (simp_all add: execute_git_commands_def subprocess_run_def commit_command_def
        commands_simps)

lemma commit_ok:
  assumes "\<not> failed (git e [''git'', ''commit'', ''-m'', m])"
  shows "execute_git_commands e (PStr m) bn a =
           (case checkout_step e bn of
              (ev2, Inl x) \<Rightarrow>
                ([Subprocess [''git'', ''commit'', ''-m'', m]] @ [Print ''Committed.''] @ ev2, Inl x)
            | (ev2, Inr False) \<Rightarrow>
                ([Subprocess [''git'', ''commit'', ''-m'', m]] @ [Print ''Committed.''] @ ev2,
                 Inr False)
            | (ev2, Inr True) \<Rightarrow>
                (case push_step e bn a of
                   (ev3, r) \<Rightarrow>
                     ([Subprocess [''git'', ''commit'', ''-m'', m]] @ [Print ''Committed.''] @
                      ev2 @ ev3, r)))"
  using assms
  by (cases "git e [''git'', ''commit'', ''-m'', m]")
     (simp_all add: execute_git_commands_def subprocess_run_def commit_command_def)

lemma checkout_skipped: "\<not> truthy bn \<Longrightarrow> checkout_step e bn = ([], Inr True)"
  by (simp add: checkout_step_def)

lemma checkout_fails:
  assumes "b \<noteq> []" and "failed (git e [''git'', ''checkout'', ''-b'', b])"
  shows "commands (fst (checkout_step e (PStr b))) = [[''git'', ''checkout'', ''-b'', b]]
       \<and> snd (checkout_step e (PStr b)) = Inr False"
  using assms
  by (cases "git e [''git'', ''checkout'', ''-b'', b]")
     (simp_all add: checkout_step_def subprocess_run_def checkout_command_def commands_simps)

lemma checkout_ok:
  assumes "b \<noteq> []" and "\<not> failed (git e [''git'', ''checkout'', ''-b'', b])"
  shows "commands (fst (checkout_step e (PStr b))) = [[''git'', ''checkout'', ''-b'', b]]
       \<and> snd (checkout_step e (PStr b)) = Inr True"
  using assms
  by (cases "git e [''git'', ''checkout'', ''-b'', b]")
     (simp_all add: checkout_step_def subprocess_run_def checkout_command_def commands_simps)

lemma push_step_branch:
  assumes "b \<noteq> []"
  shows "commands (fst (push_step e (PStr b) a)) =
           (if push a then [[''git'', ''push'', ''-u'', ''origin'', b]] else [])
       \<and> snd (push_step e (PStr b) a) =
           Inr (push a \<longrightarrow> \<not> failed (git e [''git'', ''push'', ''-u'', ''origin'', b]))"
  using assms
  by (cases "git e [''git'', ''push'', ''-u'', ''origin'', b]")
     (simp_all add: push_step_def subprocess_run_def push_command_def commands_simps)

lemma push_step_main:
  assumes "\<not> truthy bn"
  shows "commands (fst (push_step e bn a)) =
           (if push a then [[''git'', ''push'', ''-u'', ''origin'', ''main'']] else [])
       \<and> snd (push_step e bn a) =
           Inr (push a \<longrightarrow> \<not> failed (git e [''git'', ''push'', ''-u'', ''origin'', ''main'']))"
  using assms
  by (cases "git e [''git'', ''push'', ''-u'', ''origin'', ''main'']")
     (simp_all add: push_step_def subprocess_run_def push_command_def commands_simps)

lemma execute_no_branch:
  assumes "\<not> failed (git e [''git'', ''commit'', ''-m'', m])" and "\<not> truthy bn"
  shows "commands (fst (execute_git_commands e (PStr m) bn a)) =
           [''git'', ''commit'', ''-m'', m] #
           (if push a then [[''git'', ''push'', ''-u'', ''origin'', ''main'']] else [])
       \<and> snd (execute_git_commands e (PStr m) bn a) =
           Inr (push a \<longrightarrow> \<not> failed (git e [''git'', ''push'', ''-u'', ''origin'', ''main'']))"
  using push_step_main [OF assms(2), of e a] assms(2)
  by (simp add: commit_ok [OF assms(1)] checkout_skipped case_prod_beta commands_simps)

lemma execute_branch_fails:
  assumes "\<not> failed (git e [''git'', ''commit'', ''-m'', m])" and "b \<noteq> []"
    and "failed (git e [''git'', ''checkout'', ''-b'', b])"
  shows "commands (fst (execute_git_commands e (PStr m) (PStr b) a)) =
           [[''git'', ''commit'', ''-m'', m], [''git'', ''checkout'', ''-b'', b]]
       \<and> snd (execute_git_commands e (PStr m) (PStr b) a) = Inr False"
  using checkout_fails [OF assms(2,3)]
  by (simp add: commit_ok [OF assms(1)] case_prod_beta commands_simps)

lemma execute_branch_ok:
  assumes "\<not> failed (git e [''git'', ''commit'', ''-m'', m])" and "b \<noteq> []"
    and "\<not> failed (git e [''git'', ''checkout'', ''-b'', b])"
  shows "commands (fst (execute_git_commands e (PStr m) (PStr b) a)) =
           [[''git'', ''commit'', ''-m'', m], [''git'', ''checkout'', ''-b'', b]] @
           (if push a then [[''git'', ''push'', ''-u'', ''origin'', b]] else [])
       \<and> snd (execute_git_commands e (PStr m) (PStr b) a) =
           Inr (push a \<longrightarrow> \<not> failed (git e [''git'', ''push'', ''-u'', ''origin'', b]))"
  using checkout_ok [OF assms(2,3)] push_step_branch [OF assms(2), of e a]
  by (simp add: commit_ok [OF assms(1)] case_prod_beta commands_simps)

lemma truthy_plan_branch: "is_plan_branch bn \<Longrightarrow> truthy bn \<Longrightarrow> bn = PStr (the_str bn) \<and> the_str bn \<noteq> []"
  by (cases bn) simp_all

lemma execute_refines_spec:
  assumes "is_plan_branch bn"
  shows "commands (fst (execute_git_commands e (PStr m) bn a)) =
           spec_run (git e) (spec_steps m bn (push a))
       \<and> snd (execute_git_commands e (PStr m) bn a) =
           Inr (list_all (\<lambda>c. \<not> failed (git e c)) (spec_steps m bn (push a)))"
proof (cases "failed (git e [''git'', ''commit'', ''-m'', m])")
  case True
  then show ?thesis
    using execute_commit_fails [of e m bn a] by (simp add: spec_steps_def)
next
  case commit: False
  show ?thesis
  proof (cases "truthy bn")
    case False
    then show ?thesis
      using commit assms execute_no_branch [of e m bn a] by (simp add: spec_steps_def)
  next
    case True
    with assms have bn: "bn = PStr (the_str bn)" and ne: "the_str bn \<noteq> []"
      by (simp_all add: truthy_plan_branch)
    show ?thesis
    proof (cases "failed (git e [''git'', ''checkout'', ''-b'', the_str bn])")
      case True
      then show ?thesis
        using commit ne \<open>truthy bn\<close> execute_branch_fails [of e m "the_str bn" a] bn
        by (simp add: spec_steps_def)
    next
      case False
      then show ?thesis
        using commit ne \<open>truthy bn\<close> execute_branch_ok [of e m "the_str bn" a] bn
        by (simp add: spec_steps_def)
    qed
  qed
qed

text \<open>
  Claim C2. For every plan (a message \<open>m\<close>, a branch name that is a string or absent) and
  all options, the commands \<open>execute_git_commands\<close> starts are the steps of the plan, in
  their order, up to and including the first one that fails, and the function returns
  whether all of them succeeded. In particular a failing commit is the only command of the
  run, and after a commit that succeeded a failing checkout is the last command: no push
  follows, and no command undoes the commit.
\<close>

theorem execute_order_short_circuit:
  assumes "is_plan_branch bn"
  shows "commands (fst (execute_git_commands e (PStr m) bn a)) =
           spec_run (git e) (spec_steps m bn (push a))
       \<and> snd (execute_git_commands e (PStr m) bn a) =
           Inr (list_all (\<lambda>c. \<not> failed (git e c)) (spec_steps m bn (push a)))
       \<and> (failed (git e [''git'', ''commit'', ''-m'', m]) \<longrightarrow>
           commands (fst (execute_git_commands e (PStr m) bn a)) = [[''git'', ''commit'', ''-m'', m]])
       \<and> (\<not> failed (git e [''git'', ''commit'', ''-m'', m]) \<and> truthy bn \<and>
           failed (git e [''git'', ''checkout'', ''-b'', the_str bn]) \<longrightarrow>
           commands (fst (execute_git_commands e (PStr m) bn a)) =
             [[''git'', ''commit'', ''-m'', m], [''git'', ''checkout'', ''-b'', the_str bn]])"
  using execute_refines_spec [OF assms, of e m a]
  by (simp add: spec_steps_def)

theorem execute_order_short_circuit_witness:
  "is_plan_branch (PStr ''fix/empty-input'')
   \<and> commands (fst (execute_git_commands (example_env (git_failing_at ''checkout''))
        (PStr ''fix: x'') (PStr ''fix/empty-input'') (example_args True True))) =
       [[''git'', ''commit'', ''-m'', ''fix: x''], [''git'', ''checkout'', ''-b'', ''fix/empty-input'']]
   \<and> snd (execute_git_commands (example_env (git_failing_at ''checkout''))
        (PStr ''fix: x'') (PStr ''fix/empty-input'') (example_args True True)) = Inr False"
  using execute_order_short_circuit
    [of "PStr ''fix/empty-input''" "example_env (git_failing_at ''checkout'')" "''fix: x''"
        "example_args True True"]
  by (simp add: spec_steps_def example_env_def example_args_def git_failing_at_def)

text \<open>
  Claim C6. With the push option set, after a commit and (when a branch name is present) a
  checkout that both succeeded, the last command is \<open>git push -u origin\<close> followed by the
  branch name when one is present and by \<open>main\<close> otherwise. The function returns whether
  the push succeeded; when it failed, the commit and the checkout are the only other
  commands of the run, so nothing undoes them.
\<close>

theorem push_target_and_failure:
  assumes "is_plan_branch bn" and "push a"
    and "\<not> failed (git e [''git'', ''commit'', ''-m'', m])"
    and "truthy bn \<longrightarrow> \<not> failed (git e [''git'', ''checkout'', ''-b'', the_str bn])"
  shows "commands (fst (execute_git_commands e (PStr m) bn a)) =
           [[''git'', ''commit'', ''-m'', m]] @
           (if truthy bn then [[''git'', ''checkout'', ''-b'', the_str bn]] else []) @
           [[''git'', ''push'', ''-u'', ''origin'', if truthy bn then the_str bn else ''main'']]
       \<and> snd (execute_git_commands e (PStr m) bn a) =
           Inr (\<not> failed (git e [''git'', ''push'', ''-u'', ''origin'',
                                   if truthy bn then the_str bn else ''main'']))"
  using execute_refines_spec [OF assms(1), of e m a] assms(2-4)
  by (simp add: spec_steps_def)

theorem push_target_and_failure_witness:
  "commands (fst (execute_git_commands (example_env (git_failing_at ''push''))
        (PStr ''fix: x'') PNone (example_args False True))) =
       [[''git'', ''commit'', ''-m'', ''fix: x''], [''git'', ''push'', ''-u'', ''origin'', ''main'']]
   \<and> snd (execute_git_commands (example_env (git_failing_at ''push''))
        (PStr ''fix: x'') PNone (example_args False True)) = Inr False"
  using push_target_and_failure
    [of PNone "example_args False True" "example_env (git_failing_at ''push'')" "''fix: x''"]
  by (simp add: example_env_def example_args_def git_failing_at_def)

section \<open>The run as a whole\<close>

lemma get_git_status_failed:
  "failed (git e status_command) \<Longrightarrow>
     get_git_status e = ([Subprocess status_command,
                          Print ''Not in a git repository or git status failed.''], Inr None)"
  by (cases "git e status_command") (simp_all add: get_git_status_def)

lemma get_git_status_done:
  "git e status_command = Completed st \<Longrightarrow>
     get_git_status e = ([Subprocess status_command], Inr (Some st))"
  by (simp add: get_git_status_def)

lemma get_git_diff_failed:
  "failed (git e (diff_command c)) \<Longrightarrow> \<not> list_ex has_nul (diff_command c) \<Longrightarrow>
     get_git_diff e c = ([Subprocess (diff_command c)], Inr [])"
  by (cases "git e (diff_command c)") (simp_all add: get_git_diff_def)


lemma main_missing_key:
  "\<not> init a \<Longrightarrow> opt_text (openai_api_key (settings e)) = [] \<Longrightarrow>
     main e a = ([LoadConfig, Print ''API key not found. Run --init first.''], Inr ())"
  by (simp add: main_def)

lemma main_status_failed:
  assumes "\<not> init a" and "opt_text (openai_api_key (settings e)) \<noteq> []"
    and "failed (git e status_command)"
  shows "main e a = ([LoadConfig, Subprocess status_command,
                      Print ''Not in a git repository or git status failed.''], Inr ())"
  using assms(1,2) get_git_status_failed [OF assms(3)]
  by (simp add: main_def)



lemma confirm_yes: "yes a \<Longrightarrow> confirm e a q = ([], Inr True)"
  by (simp add: confirm_def)






lemma requests_subprocess_run: "requests (fst (subprocess_run e argv)) = []"
  by (simp add: subprocess_run_def requests_simps)

lemma requests_checkout_step: "requests (fst (checkout_step e bn)) = []"
proof (cases "list_all is_str (checkout_command bn)")
  case True
  then show ?thesis
    by (cases "git e (map the_str (checkout_command bn))")
       (simp_all add: checkout_step_def subprocess_run_def requests_simps)
next
  case False
  then show ?thesis
    by (simp add: checkout_step_def subprocess_run_def requests_simps)
qed

lemma requests_push_step: "requests (fst (push_step e bn a)) = []"
proof (cases "list_all is_str (push_command bn)")
  case True
  then show ?thesis
    by (cases "git e (map the_str (push_command bn))")
       (simp_all add: push_step_def subprocess_run_def requests_simps)
next
  case False
  then show ?thesis
    by (simp add: push_step_def subprocess_run_def requests_simps)
qed

lemma requests_execute: "requests (fst (execute_git_commands e cm bn a)) = []"
proof (cases "list_all is_str (commit_command cm)")
  case False
  then show ?thesis
    by (simp add: execute_git_commands_def subprocess_run_def requests_simps)
next
  case True
  show ?thesis
  proof (cases "failed (git e (map the_str (commit_command cm)))")
    case failing: True
    with True show ?thesis
      by (cases "git e (map the_str (commit_command cm))")
         (simp_all add: execute_git_commands_def subprocess_run_def requests_simps)
  next
    case ended: False
    show ?thesis
    proof (cases "snd (checkout_step e bn)")
      case (Inl x)
      with True ended show ?thesis
        using requests_checkout_step [of e bn]
        by (cases "git e (map the_str (commit_command cm))")
           (simp_all add: execute_git_commands_def subprocess_run_def requests_simps
              case_prod_beta)
    next
      case (Inr ok)
      with True ended show ?thesis
        using requests_checkout_step [of e bn] requests_push_step [of e bn a]
        by (cases ok; cases "git e (map the_str (commit_command cm))")
           (simp_all add: execute_git_commands_def subprocess_run_def requests_simps
              case_prod_beta)
    qed
  qed
qed

lemma requests_parse_response: "requests (fst (parse_response l r w)) = []"
proof (cases "l (clean_result r)")
  case None
  then show ?thesis by (simp add: parse_response_def requests_simps)
next
  case (Some data)
  show ?thesis
  proof (cases "subscript data ''commit_message''")
    case (Inl x)
    with Some show ?thesis by (simp add: parse_response_def requests_simps)
  next
    case (Inr cm)
    with Some show ?thesis
      by (cases "dict_get data ''branch_name''")
         (simp_all add: parse_response_def requests_simps)
  qed
qed

lemma requests_call_openai: "requests (fst (call_openai e p c)) = [p]"
proof (cases "create e (model_of c) p (max_tokens_of c)")
  case (ApiError msg)
  then show ?thesis by (simp add: call_openai_def requests_simps)
next
  case (ApiResponse content u)
  show ?thesis
  proof (cases content)
    case None
    with ApiResponse show ?thesis by (simp add: call_openai_def requests_simps)
  next
    case (Some content_text)
    with ApiResponse show ?thesis
      by (cases u) (simp_all add: call_openai_def requests_simps)
  qed
qed

lemma requests_token_report: "requests (fst (token_report e c p)) = []"
proof (cases "encoding_for_model e (model_of c)")
  case (Encoder encode)
  then show ?thesis
    by (cases "encode p") (simp_all add: token_report_def requests_simps)
qed (simp_all add: token_report_def requests_simps)

lemma requests_write_prompt: "requests (fst (write_prompt e a p)) = []"
  by (simp add: write_prompt_def requests_simps)

lemma requests_init_config: "requests (fst (init_config e)) = []"
  by (simp add: init_config_def Let_def requests_simps split: option.splits)

lemma commands_init_config: "commands (fst (init_config e)) = []"
  by (simp add: init_config_def Let_def commands_simps split: option.splits)

lemma main_sends_prompt:
  assumes "\<not> init a" and "opt_text (openai_api_key (settings e)) \<noteq> []" and "yes a"
    and "get_git_status e = ([Subprocess status_command], Inr (Some st))"
    and "get_git_diff e (settings e) = ([Subprocess (diff_command (settings e))], Inr d)"
    and "snd (write_prompt e a (build_prompt st d a (settings e))) = Inr ()"
    and "snd (token_report e (settings e) (build_prompt st d a (settings e))) = Inr ()"
  shows "requests (fst (main e a)) = [build_prompt st d a (settings e)]"
proof -
  let ?p = "build_prompt st d a (settings e)"
  note rs = requests_simps requests_call_openai requests_parse_response requests_execute
    requests_token_report requests_write_prompt
  note pre = assms confirm_yes [OF assms(3)]
  show ?thesis
  proof (cases "snd (call_openai e ?p (settings e))")
    case None
    then show ?thesis
      using pre by (simp add: main_def case_prod_beta Let_def rs)
  next
    case (Some result)
    show ?thesis
    proof (cases "snd (parse_response (loads e) result (branch a))")
      case (Inl x)
      with Some show ?thesis
        using pre by (simp add: main_def case_prod_beta Let_def rs)
    next
      case (Inr pr)
      obtain cm bn where pr: "pr = (cm, bn)" by (cases pr)
      show ?thesis
      proof (cases "snd (execute_git_commands e cm bn a)")
        case (Inl x)
        with Some Inr pr show ?thesis
          using pre by (simp add: main_def case_prod_beta Let_def rs)
      next
        case (Inr ok)
        with Some \<open>snd (parse_response (loads e) result (branch a)) = Inr pr\<close> pr show ?thesis
          using pre by (simp add: main_def case_prod_beta Let_def rs)
      qed
    qed
  qed
qed




text \<open>
  Claim C9. When the status query fails, no request is sent to the backend and no git
  command other than the status query is started. In a run that is not \<open>--init\<close> and has
  a key, the whole run is: read the settings, start \<open>git status\<close>, print the diagnostic,
  return; so no prompt is written to a file, counted or sent.
\<close>

theorem status_failure_halts:
  assumes "failed (git e status_command)"
  shows "requests (fst (main e a)) = []
       \<and> list_all (\<lambda>c. c = status_command) (commands (fst (main e a)))
       \<and> (\<not> init a \<and> opt_text (openai_api_key (settings e)) \<noteq> [] \<longrightarrow>
            main e a = ([LoadConfig, Subprocess status_command,
                         Print ''Not in a git repository or git status failed.''], Inr ()))"
proof (cases "init a")
  case True
  then show ?thesis
    by (simp add: main_def requests_init_config commands_init_config)
next
  case False
  show ?thesis
  proof (cases "opt_text (openai_api_key (settings e)) = []")
    case True
    with False show ?thesis
      by (simp add: main_missing_key requests_simps commands_simps)
  next
    case key: False
    with False assms show ?thesis
      by (simp add: main_status_failed requests_simps commands_simps)
  qed
qed

theorem status_failure_halts_witness:
  "failed (git (example_env git_not_a_repository) status_command)
   \<and> requests (fst (main (example_env git_not_a_repository) (example_args True True))) = []
   \<and> commands (fst (main (example_env git_not_a_repository) (example_args True True))) =
       [status_command]"
proof -
  have f: "failed (git (example_env git_not_a_repository) status_command)"
    by (simp add: example_env_def git_not_a_repository_def)
  have i: "\<not> init (example_args True True)"
    by (simp add: example_args_def)
  have k: "opt_text (openai_api_key (settings (example_env git_not_a_repository))) \<noteq> []"
    by (simp add: example_env_def example_config_def)
  from status_failure_halts [OF f, of "example_args True True"] i k
  have "main (example_env git_not_a_repository) (example_args True True) =
          ([LoadConfig, Subprocess status_command,
            Print ''Not in a git repository or git status failed.''], Inr ())"
    by simp
  then show ?thesis
    using f by (simp add: requests_simps commands_simps)
qed

text \<open>
  Claim C7, as amended. When the diff command ends with a non-zero status,
  \<open>get_git_diff\<close> returns the empty string and prints nothing; this is the one failure it
  recovers from. Output that is not text raises \<open>UnicodeDecodeError\<close> and an exclude path
  with a NUL character raises \<open>ValueError\<close>: neither is caught. \<open>get_git_status\<close> returns
  \<open>None\<close> and prints a diagnostic when its command ends with a non-zero status. In
  \<open>main\<close>, with automatic confirmation, a prompt that can be written and counted, and a
  status \<open>st\<close>, a diff command that ends with a non-zero status leads to exactly one
  request, whose prompt is built from \<open>st\<close> and the empty diff; a status command that ends
  with a non-zero status ends the run with no request. The example after the witness is a
  staged diff whose output is not text: \<open>get_git_diff\<close> fails.
\<close>

theorem diff_failure_recovered:
  "(failed (git e (diff_command c)) \<and> \<not> list_ex has_nul (diff_command c) \<longrightarrow>
      get_git_diff e c = ([Subprocess (diff_command c)], Inr []))
   \<and> (git e (diff_command c) = Undecodable \<and> \<not> list_ex has_nul (diff_command c) \<longrightarrow>
        get_git_diff e c = ([Subprocess (diff_command c)], Inl UnicodeDecodeError))
   \<and> (list_ex has_nul (diff_command c) \<longrightarrow> get_git_diff e c = ([], Inl ValueError))
   \<and> (failed (git e status_command) \<longrightarrow>
        get_git_status e = ([Subprocess status_command,
                             Print ''Not in a git repository or git status failed.''], Inr None))
   \<and> (\<not> init a \<and> opt_text (openai_api_key (settings e)) \<noteq> [] \<and> yes a
        \<and> git e status_command = Completed st
        \<and> failed (git e (diff_command (settings e)))
        \<and> \<not> list_ex has_nul (diff_command (settings e))
        \<and> snd (write_prompt e a (build_prompt st [] a (settings e))) = Inr ()
        \<and> snd (token_report e (settings e) (build_prompt st [] a (settings e))) = Inr () \<longrightarrow>
        requests (fst (main e a)) = [build_prompt st [] a (settings e)])
   \<and> (\<not> init a \<and> opt_text (openai_api_key (settings e)) \<noteq> []
        \<and> failed (git e status_command) \<longrightarrow>
        requests (fst (main e a)) = [] \<and> snd (main e a) = Inr ())"
proof (intro conjI impI)
  assume "failed (git e (diff_command c)) \<and> \<not> list_ex has_nul (diff_command c)"
  then show "get_git_diff e c = ([Subprocess (diff_command c)], Inr [])"
    by (simp add: get_git_diff_failed)
next
  assume "git e (diff_command c) = Undecodable \<and> \<not> list_ex has_nul (diff_command c)"
  then show "get_git_diff e c = ([Subprocess (diff_command c)], Inl UnicodeDecodeError)"
    by (simp add: get_git_diff_def)
next
  assume "list_ex has_nul (diff_command c)"
  then show "get_git_diff e c = ([], Inl ValueError)"
    by (simp add: get_git_diff_def)
next
  assume "failed (git e status_command)"
  then show "get_git_status e = ([Subprocess status_command,
                             Print ''Not in a git repository or git status failed.''], Inr None)"
    by (rule get_git_status_failed)
next
  assume h: "\<not> init a \<and> opt_text (openai_api_key (settings e)) \<noteq> [] \<and> yes a
        \<and> git e status_command = Completed st
        \<and> failed (git e (diff_command (settings e)))
        \<and> \<not> list_ex has_nul (diff_command (settings e))
        \<and> snd (write_prompt e a (build_prompt st [] a (settings e))) = Inr ()
        \<and> snd (token_report e (settings e) (build_prompt st [] a (settings e))) = Inr ()"
  then have s: "get_git_status e = ([Subprocess status_command], Inr (Some st))"
    by (simp add: get_git_status_done)
  from h have d: "get_git_diff e (settings e) =
                    ([Subprocess (diff_command (settings e))], Inr [])"
    by (simp add: get_git_diff_failed)
  from h have i: "\<not> init a" and k: "opt_text (openai_api_key (settings e)) \<noteq> []"
    and y: "yes a"
    and w: "snd (write_prompt e a (build_prompt st [] a (settings e))) = Inr ()"
    and t: "snd (token_report e (settings e) (build_prompt st [] a (settings e))) = Inr ()"
    by simp_all
  show "requests (fst (main e a)) = [build_prompt st [] a (settings e)]"
    by (rule main_sends_prompt [OF i k y s d w t])
next
  assume h: "\<not> init a \<and> opt_text (openai_api_key (settings e)) \<noteq> []
        \<and> failed (git e status_command)"
  then show "requests (fst (main e a)) = []"
    by (simp add: main_status_failed requests_simps)
next
  assume h: "\<not> init a \<and> opt_text (openai_api_key (settings e)) \<noteq> []
        \<and> failed (git e status_command)"
  then show "snd (main e a) = Inr ()"
    by (simp add: main_status_failed)
qed

theorem diff_failure_recovered_witness:
  "failed (git (example_env (git_failing_at ''diff'')) (diff_command example_config))
   \<and> get_git_diff (example_env (git_failing_at ''diff'')) example_config =
       ([Subprocess [''git'', ''diff'', ''--staged'']], Inr [])
   \<and> requests (fst (main (example_env (git_failing_at ''diff'')) (example_args False False))) =
       [build_prompt [] [] (example_args False False) example_config]"
proof -
  let ?e = "example_env (git_failing_at ''diff'')"
  let ?a = "example_args False False"
  have d: "diff_command example_config = [''git'', ''diff'', ''--staged'']"
    by (simp add: diff_command_def example_config_def)
  have n: "\<not> list_ex has_nul (diff_command example_config)"
    by (simp add: d has_nul_def)
  have f: "failed (git ?e (diff_command example_config))"
    by (simp add: d example_env_def git_failing_at_def)
  have s: "git ?e status_command = Completed []"
    by (simp add: example_env_def git_failing_at_def status_command_def)
  have c: "settings ?e = example_config"
    by (simp add: example_env_def)
  have k: "opt_text (openai_api_key example_config) \<noteq> []"
    by (simp add: example_config_def)
  have w: "snd (write_prompt ?e ?a (build_prompt [] [] ?a example_config)) = Inr ()"
    by (simp add: write_prompt_def example_args_def)
  have t: "snd (token_report ?e example_config (build_prompt [] [] ?a example_config)) = Inr ()"
    by (simp add: token_report_def example_env_def)
  have y: "yes ?a" and i: "\<not> init ?a"
    by (simp_all add: example_args_def)
  from diff_failure_recovered [of ?e example_config ?a "[]"] f n s k w t y i
  have "get_git_diff ?e example_config = ([Subprocess (diff_command example_config)], Inr [])
      \<and> requests (fst (main ?e ?a)) = [build_prompt [] [] ?a example_config]"
    unfolding c by simp
  then show ?thesis
    using f unfolding d by simp
qed

theorem diff_failure_recovered_counterexample:
  "get_git_diff (example_env (git_undecodable_at ''diff'')) example_config =
     ([Subprocess [''git'', ''diff'', ''--staged'']], Inl UnicodeDecodeError)"
  by (simp add: get_git_diff_def diff_command_def example_config_def example_env_def
      git_undecodable_at_def has_nul_def)

section \<open>The prompt builder\<close>

lemma build_prompt_parts:
  "build_prompt status diff a c =
     fixed_part (branch a) @
     extra_part (opt_text (cfg_extra_info c)) (opt_text (extra_info a)) @
     context_part status diff"
  by (simp add: build_prompt_def fixed_part_def extra_part_def context_part_def Let_def)

lemma fixed_no_branch_header: "\<not> sublist branch_header (fixed_part False)"
  unfolding branch_header_def fixed_part_def task_text_def requirements_text_def
    output_format_text_def
  by code_simp

lemma fixed_False_no_extra_title: "\<not> sublist extra_title (fixed_part False)"
  unfolding extra_title_def fixed_part_def task_text_def requirements_text_def
    output_format_text_def
  by code_simp

lemma fixed_True_no_extra_title: "\<not> sublist extra_title (fixed_part True)"
  unfolding extra_title_def fixed_part_def task_text_def requirements_text_def
    output_format_text_def branch_task_text_def branch_spec_text_def
  by code_simp

lemma fixed_no_extra_title: "\<not> sublist extra_title (fixed_part b)"
  by (cases b) (simp_all add: fixed_False_no_extra_title fixed_True_no_extra_title)

lemma sublist_in_left: "sublist h a \<Longrightarrow> sublist h (a @ b)"
  by (simp add: sublist_append)

lemma sublist_in_right: "sublist h b \<Longrightarrow> sublist h (a @ b)"
  by (simp add: sublist_append)

lemma branch_header_facts:
  "CHR 0x0A \<notin> set branch_header" "branch_header \<noteq> []"
  "\<not> sublist branch_header extra_header"
  "\<not> sublist branch_header ''# Context\<newline>## Git status:\<newline>''"
  "\<not> sublist branch_header ''\<newline>## Git diff:\<newline>''"
  "sublist branch_header branch_spec_text"
  unfolding branch_header_def extra_header_def branch_spec_text_def
  by code_simp+

lemma extra_title_facts:
  "CHR 0x0A \<notin> set extra_title" "extra_title \<noteq> []"
  "\<not> sublist extra_title ''# Context\<newline>## Git status:\<newline>''"
  "\<not> sublist extra_title ''\<newline>## Git diff:\<newline>''"
  "sublist extra_title extra_header"
  unfolding extra_title_def extra_header_def
  by code_simp+

lemma prompt_with_branch_spec:
  assumes "branch a"
  shows "sublist branch_spec_text (build_prompt status diff a c)"
proof -
  have "sublist branch_spec_text (fixed_part True)"
    unfolding fixed_part_def
    by (intro sublist_in_right [of _ _ task_text] sublist_in_right [of _ _ "if True then branch_task_text else []"]
          sublist_in_right [of _ _ requirements_text] sublist_in_left) simp
  then show ?thesis
    using assms by (simp add: build_prompt_parts sublist_in_left)
qed

lemma prompt_with_extra:
  assumes "opt_text (extra_info a) \<noteq> [] \<or> opt_text (cfg_extra_info c) \<noteq> []"
  shows "sublist extra_header (build_prompt status diff a c)"
proof -
  have "sublist extra_header (extra_part (opt_text (cfg_extra_info c)) (opt_text (extra_info a)))"
    using assms by (auto simp: extra_part_def sublist_in_left)
  then show ?thesis
    by (simp add: build_prompt_parts sublist_in_left sublist_in_right)
qed

lemma fixed_without_branch_spec: "\<not> sublist branch_spec_text (fixed_part False)"
proof
  assume "sublist branch_spec_text (fixed_part False)"
  with branch_header_facts(6) have "sublist branch_header (fixed_part False)"
    by (rule sublist_order.order.trans)
  with fixed_no_branch_header show False by simp
qed

lemma fixed_with_branch_spec: "sublist branch_spec_text (fixed_part True)"
  unfolding fixed_part_def
  by (intro sublist_in_right [of _ _ task_text]
        sublist_in_right [of _ _ "if True then branch_task_text else []"]
        sublist_in_right [of _ _ requirements_text] sublist_in_left) simp

lemma fixed_without_extra_header: "\<not> sublist extra_header (fixed_part b)"
proof
  assume "sublist extra_header (fixed_part b)"
  with extra_title_facts(5) have "sublist extra_title (fixed_part b)"
    by (rule sublist_order.order.trans)
  with fixed_no_extra_title show False by simp
qed

lemma extra_part_header: "cfg \<noteq> [] \<or> run \<noteq> [] \<Longrightarrow> prefix extra_header (extra_part cfg run)"
  by (auto simp: extra_part_def)

text \<open>
  Claim C5. For every status, diff, options and settings, the prompt is the instructions,
  then the extra-information section, then the context. The instructions contain the
  branch-name specification if and only if the branch option is set, and they never
  contain the header of the extra-information section. The extra-information section is
  not empty if and only if one of the two extra-information texts is not empty; it then
  starts with its header; and when both texts are not empty it is the header, the text of
  the settings, a line feed, the text of the run and a line feed, so that the text of the
  settings comes first. The status and the diff are in the context only, after both.
\<close>

theorem prompt_inclusion_laws:
  "build_prompt status diff a c =
     fixed_part (branch a) @
     extra_part (opt_text (cfg_extra_info c)) (opt_text (extra_info a)) @
     context_part status diff
   \<and> (sublist branch_spec_text (fixed_part (branch a)) \<longleftrightarrow> branch a)
   \<and> (branch a \<longrightarrow> sublist branch_spec_text (build_prompt status diff a c))
   \<and> \<not> sublist extra_header (fixed_part (branch a))
   \<and> (extra_part (opt_text (cfg_extra_info c)) (opt_text (extra_info a)) \<noteq> [] \<longleftrightarrow>
        opt_text (cfg_extra_info c) \<noteq> [] \<or> opt_text (extra_info a) \<noteq> [])
   \<and> (opt_text (cfg_extra_info c) \<noteq> [] \<or> opt_text (extra_info a) \<noteq> [] \<longrightarrow>
        prefix extra_header (extra_part (opt_text (cfg_extra_info c)) (opt_text (extra_info a)))
        \<and> sublist extra_header (build_prompt status diff a c))
   \<and> (opt_text (cfg_extra_info c) \<noteq> [] \<and> opt_text (extra_info a) \<noteq> [] \<longrightarrow>
        extra_part (opt_text (cfg_extra_info c)) (opt_text (extra_info a)) =
          extra_header @ opt_text (cfg_extra_info c) @ [CHR 0x0A] @
          opt_text (extra_info a) @ [CHR 0x0A])"
proof (intro conjI impI)
  show "build_prompt status diff a c =
     fixed_part (branch a) @
     extra_part (opt_text (cfg_extra_info c)) (opt_text (extra_info a)) @
     context_part status diff"
    by (rule build_prompt_parts)
next
  show "sublist branch_spec_text (fixed_part (branch a)) \<longleftrightarrow> branch a"
    by (cases "branch a") (simp_all add: fixed_with_branch_spec fixed_without_branch_spec)
next
  assume "branch a"
  then show "sublist branch_spec_text (build_prompt status diff a c)"
    by (rule prompt_with_branch_spec)
next
  show "\<not> sublist extra_header (fixed_part (branch a))"
    by (rule fixed_without_extra_header)
next
  show "extra_part (opt_text (cfg_extra_info c)) (opt_text (extra_info a)) \<noteq> [] \<longleftrightarrow>
        opt_text (cfg_extra_info c) \<noteq> [] \<or> opt_text (extra_info a) \<noteq> []"
    by (auto simp: extra_part_def extra_header_def)
next
  assume "opt_text (cfg_extra_info c) \<noteq> [] \<or> opt_text (extra_info a) \<noteq> []"
  then show "prefix extra_header
               (extra_part (opt_text (cfg_extra_info c)) (opt_text (extra_info a)))"
    by (rule extra_part_header)
next
  assume "opt_text (cfg_extra_info c) \<noteq> [] \<or> opt_text (extra_info a) \<noteq> []"
  then have "opt_text (extra_info a) \<noteq> [] \<or> opt_text (cfg_extra_info c) \<noteq> []"
    by (cases "opt_text (cfg_extra_info c) = []") simp_all
  then show "sublist extra_header (build_prompt status diff a c)"
    by (rule prompt_with_extra)
next
  assume "opt_text (cfg_extra_info c) \<noteq> [] \<and> opt_text (extra_info a) \<noteq> []"
  then show "extra_part (opt_text (cfg_extra_info c)) (opt_text (extra_info a)) =
          extra_header @ opt_text (cfg_extra_info c) @ [CHR 0x0A] @
          opt_text (extra_info a) @ [CHR 0x0A]"
    by (simp add: extra_part_def)
qed

theorem prompt_inclusion_laws_witness:
  "sublist branch_spec_text
     (build_prompt ''M main.py'' ''+x = 1''
        ((example_args True False)\<lparr>extra_info := Some ''run note''\<rparr>)
        (example_config\<lparr>cfg_extra_info := Some ''team note''\<rparr>))
   \<and> extra_part ''team note'' ''run note'' =
       extra_header @ ''team note'' @ [CHR 0x0A] @ ''run note'' @ [CHR 0x0A]
   \<and> build_prompt ''M main.py'' ''+x = 1''
        ((example_args True False)\<lparr>extra_info := Some ''run note''\<rparr>)
        (example_config\<lparr>cfg_extra_info := Some ''team note''\<rparr>) =
      fixed_part True @ extra_part ''team note'' ''run note'' @
      context_part ''M main.py'' ''+x = 1''"
proof -
  have c: "opt_text (cfg_extra_info (example_config\<lparr>cfg_extra_info := Some ''team note''\<rparr>)) = ''team note''"
    by simp
  have a: "opt_text (extra_info ((example_args True False)\<lparr>extra_info := Some ''run note''\<rparr>)) = ''run note''"
    by simp
  have b: "branch ((example_args True False)\<lparr>extra_info := Some ''run note''\<rparr>) = True"
    by (simp add: example_args_def)
  note th = prompt_inclusion_laws
    [of "''M main.py''" "''+x = 1''" "(example_args True False)\<lparr>extra_info := Some ''run note''\<rparr>"
        "example_config\<lparr>cfg_extra_info := Some ''team note''\<rparr>", unfolded c a b]
  have d: "build_prompt ''M main.py'' ''+x = 1''
        ((example_args True False)\<lparr>extra_info := Some ''run note''\<rparr>)
        (example_config\<lparr>cfg_extra_info := Some ''team note''\<rparr>) =
      fixed_part True @ extra_part ''team note'' ''run note'' @
      context_part ''M main.py'' ''+x = 1''"
    using th by (rule conjunct1)
  have "True \<longrightarrow> sublist branch_spec_text
     (build_prompt ''M main.py'' ''+x = 1''
        ((example_args True False)\<lparr>extra_info := Some ''run note''\<rparr>)
        (example_config\<lparr>cfg_extra_info := Some ''team note''\<rparr>))"
    using th by (elim conjE) assumption
  then have s: "sublist branch_spec_text
     (build_prompt ''M main.py'' ''+x = 1''
        ((example_args True False)\<lparr>extra_info := Some ''run note''\<rparr>)
        (example_config\<lparr>cfg_extra_info := Some ''team note''\<rparr>))"
    by (rule mp) (rule TrueI)
  have "''team note'' \<noteq> [] \<and> ''run note'' \<noteq> [] \<longrightarrow>
        extra_part ''team note'' ''run note'' =
          extra_header @ ''team note'' @ [CHR 0x0A] @ ''run note'' @ [CHR 0x0A]"
    using th by (elim conjE) assumption
  moreover have "''team note'' \<noteq> [] \<and> ''run note'' \<noteq> []"
    by simp
  ultimately have x: "extra_part ''team note'' ''run note'' =
          extra_header @ ''team note'' @ [CHR 0x0A] @ ''run note'' @ [CHR 0x0A]"
    by (rule mp)
  from s x d show ?thesis
    by (intro conjI)
qed

end
